theory Spec2Isabelle
  imports Main "HOL-Library.Multiset"
begin

section \<open>Exceptions and strings\<close>

text \<open>
  Python exceptions are values. Only the classes the handlers of the program tell apart
  are kept apart: \<open>FileNotFoundError\<close> (caught on its own in \<open>main.py\<close>),
  \<open>ValueError\<close> (raised by \<open>_make_authenticated_request\<close>), \<open>IndexError\<close>
  (a list read out of range), \<open>AssertionError\<close>, and \<open>OtherException\<close> for every other
  class (HTTP errors, provider failures, I/O errors).
\<close>

datatype exn =
    FileNotFoundError string
  | ValueError string
  | IndexError
  | AssertionError
  | OtherException string


type_synonym bytes = string

text \<open>\<open>sep.join(xs)\<close> of Python.\<close>

fun str_join :: "string \<Rightarrow> string list \<Rightarrow> string" where
  "str_join sep [] = ''''"
| "str_join sep [x] = x"
| "str_join sep (x # y # ys) = x @ sep @ str_join sep (y # ys)"

definition NL :: char where
  "NL = CHR 0x0A"

text \<open>Python list indexing \<open>xs[i]\<close>: a negative index counts from the end, an index out of
  range raises \<open>IndexError\<close>.\<close>

definition py_index :: "'a list \<Rightarrow> int \<Rightarrow> exn + 'a" where
  "py_index xs i =
     (if 0 \<le> i \<and> i < int (length xs) then Inr (xs ! nat i)
      else if i < 0 \<and> - int (length xs) \<le> i then Inr (xs ! nat (int (length xs) + i))
      else Inl IndexError)"

text \<open>\<open>str.lower\<close>, \<open>str.upper\<close>, \<open>str.endswith\<close>, \<open>str.strip\<close> and \<open>str.replace\<close> (of one
  character), on ASCII: a \<open>char\<close> is a byte, and the file names and methods the program
  tests are ASCII.\<close>

definition char_lower :: "char \<Rightarrow> char" where
  "char_lower c = (let n = (of_char c :: nat) in if 65 \<le> n \<and> n \<le> 90 then char_of (n + 32) else c)"

definition char_upper :: "char \<Rightarrow> char" where
  "char_upper c = (let n = (of_char c :: nat) in if 97 \<le> n \<and> n \<le> 122 then char_of (n - 32) else c)"

definition str_lower :: "string \<Rightarrow> string" where
  "str_lower s = map char_lower s"

definition str_upper :: "string \<Rightarrow> string" where
  "str_upper s = map char_upper s"

definition endswith :: "string \<Rightarrow> string \<Rightarrow> bool" where
  "endswith s suf = (length suf \<le> length s \<and> drop (length s - length suf) s = suf)"

definition is_space :: "char \<Rightarrow> bool" where
  "is_space c = (let n = (of_char c :: nat) in (9 \<le> n \<and> n \<le> 13) \<or> (28 \<le> n \<and> n \<le> 32))"

definition str_strip :: "string \<Rightarrow> string" where
  "str_strip s = rev (dropWhile is_space (rev (dropWhile is_space s)))"

definition str_replace :: "char \<Rightarrow> string \<Rightarrow> string \<Rightarrow> string" where
  "str_replace old new s = concat (map (\<lambda>c. if c = old then new else [c]) s)"

section \<open>backend/onedrive\_client.py\<close>


text \<open>A request as \<open>requests.get/put/post\<close> receives it, and the part of a response the
  program reads.\<close>

record http_request =
  rq_method :: string
  rq_url :: string
  rq_headers :: "string \<rightharpoonup> string"
  rq_data :: "bytes option"

record http_response =
  status_code :: nat
  content :: bytes

text \<open>
  The world outside the process, of some type \<open>'w\<close>: the Graph service answering a request
  (or the \<open>requests\<close> call raising), and the \<open>auth\<close> module handing out a token
  (\<open>get_access_token\<close>, which raises when no token can be acquired) and dropping its cache
  (\<open>clear_token_cache\<close>). Each call may change the world.
\<close>

record 'w net_env =
  http_send :: "'w \<Rightarrow> http_request \<Rightarrow> (exn + http_response) \<times> 'w"
  get_access_token :: "'w \<Rightarrow> (exn + string) \<times> 'w"
  clear_token_cache :: "'w \<Rightarrow> 'w"

text \<open>The module's state: the singleton \<open>_cached_headers\<close> and the world. \<open>sent\<close> is the
  history of the requests handed to \<open>requests\<close>, oldest first; the program does not read it.\<close>

record 'w client_state =
  cached_headers :: "(string \<rightharpoonup> string) option"
  world :: 'w
  sent :: "http_request list"

definition get_headers ::
  "'w net_env \<Rightarrow> 'w client_state \<Rightarrow> (exn + (string \<rightharpoonup> string)) \<times> 'w client_state" where
  "get_headers env st =
     (case cached_headers st of
        Some h \<Rightarrow> (Inr h, st)
      | None \<Rightarrow>
          (case get_access_token env (world st) of
             (Inl e, w) \<Rightarrow> (Inl e, st\<lparr>world := w\<rparr>)
           | (Inr token, w) \<Rightarrow>
               (let h = [''Authorization'' \<mapsto> ''Bearer '' @ token]
                in (Inr h, st\<lparr>cached_headers := Some h, world := w\<rparr>))))"

text \<open>The three-way dispatch on \<open>method.upper()\<close>: \<open>requests.get\<close> passes no body,
  \<open>requests.put\<close> and \<open>requests.post\<close> pass \<open>data\<close>.\<close>

definition build_request ::
  "string \<Rightarrow> string \<Rightarrow> (string \<rightharpoonup> string) \<Rightarrow> bytes option \<Rightarrow> http_request" where
  "build_request m url headers data =
     \<lparr>rq_method = m, rq_url = url, rq_headers = headers,
      rq_data = (if m = ''GET'' then None else data)\<rparr>"

definition dispatch_request ::
  "'w net_env \<Rightarrow> 'w client_state \<Rightarrow> string \<Rightarrow> string \<Rightarrow> (string \<rightharpoonup> string) \<Rightarrow> bytes option
     \<Rightarrow> (exn + http_response) \<times> 'w client_state" where
  "dispatch_request env st m url headers data =
     (case http_send env (world st) (build_request m url headers data) of
        (r, w) \<Rightarrow> (r, st\<lparr>world := w, sent := sent st @ [build_request m url headers data]\<rparr>))"

text \<open>\<open>headers = _get_headers().copy(); if extra_headers: headers.update(extra_headers)\<close>\<close>

definition update_headers ::
  "(string \<rightharpoonup> string) \<Rightarrow> (string \<rightharpoonup> string) option \<Rightarrow> (string \<rightharpoonup> string)" where
  "update_headers headers extra_headers =
     (case extra_headers of None \<Rightarrow> headers | Some extra \<Rightarrow> headers ++ extra)"

definition make_authenticated_request ::
  "'w net_env \<Rightarrow> 'w client_state \<Rightarrow> string \<Rightarrow> string \<Rightarrow> bytes option \<Rightarrow> (string \<rightharpoonup> string) option
     \<Rightarrow> (exn + http_response) \<times> 'w client_state" where
  "make_authenticated_request env st url method data extra_headers =
     (case get_headers env st of
        (Inl e, st1) \<Rightarrow> (Inl e, st1)
      | (Inr h, st1) \<Rightarrow>
          (let m = str_upper method
           in if m \<noteq> ''GET'' \<and> m \<noteq> ''PUT'' \<and> m \<noteq> ''POST''
              then (Inl (ValueError (''Unsupported HTTP method: '' @ method)), st1)
              else
                (case dispatch_request env st1 m url (update_headers h extra_headers) data of
                   (Inl e, st2) \<Rightarrow> (Inl e, st2)
                 | (Inr resp, st2) \<Rightarrow>
                     (if status_code resp = 401 then
                        (let st3 = st2\<lparr>cached_headers := None,
                                       world := clear_token_cache env (world st2)\<rparr>
                         in case get_headers env st3 of
                              (Inl e, st4) \<Rightarrow> (Inl e, st4)
                            | (Inr h', st4) \<Rightarrow>
                                dispatch_request env st4 m url (update_headers h' extra_headers) data)
                      else (Inr resp, st2)))))"


text \<open>A drive item: the keys of the JSON object the program reads. \<open>is_folder\<close> is the
  truth value of \<open>item.get("folder")\<close>, \<open>last_modified\<close> is \<open>lastModifiedDateTime\<close> (empty
  when absent), \<open>relative_path\<close> the key \<open>_relative_path\<close> the recursive listing adds.\<close>

record item =
  name :: string
  item_id :: string
  is_folder :: bool
  last_modified :: string
  relative_path :: "string option"



definition child_path :: "string \<Rightarrow> string \<Rightarrow> string" where
  "child_path current_path nm = (if current_path \<noteq> [] then current_path @ ''/'' @ nm else nm)"

text \<open>\<open>item["_relative_path"] = f"{_current_path}/{item['name']}"\<close>, or the name alone at
  the top.\<close>

definition tag_item :: "string \<Rightarrow> item \<Rightarrow> item" where
  "tag_item current_path it = it\<lparr>relative_path := Some (child_path current_path (name it))\<rparr>"








section \<open>The persisted vector store\<close>

text \<open>
  The two artifacts of \<open>VECTOR_STORE_DIR\<close>, each absent or present: \<open>faiss_index.bin\<close>
  holds the index that \<open>faiss.write_index\<close> stored and \<open>faiss.read_index\<close> gives back,
  \<open>chunks.pkl\<close> the chunk list that \<open>pickle.dump\<close> stored and \<open>pickle.load\<close> gives back.
  Local file operations succeed: the exceptions of the model come from the network, from the
  providers and from the program's own \<open>raise\<close> statements.
\<close>

record 'ix vector_store =
  faiss_index_bin :: "'ix option"
  chunks_pkl :: "string list option"

section \<open>backend/retriever.py\<close>

text \<open>
  The library calls of the retriever: \<open>embed_query\<close> stands for \<open>_embed_query\<close> (the
  provider call, \<open>np.array\<close> and the float32 \<open>_normalize\<close>), \<open>index_search ix qv k\<close> for
  the label row \<open>idx[0]\<close> of \<open>_index.search(qv, k)\<close>, \<open>chat_complete system user\<close> for
  the chat completion call of \<open>llm_answer.py\<close>.
\<close>

record ('ix, 'v) retriever_env =
  embed_query :: "string \<Rightarrow> exn + 'v"
  index_search :: "'ix \<Rightarrow> 'v \<Rightarrow> int \<Rightarrow> int list"
  chat_complete :: "string \<Rightarrow> string \<Rightarrow> exn + string"

text \<open>The module's singletons \<open>_index\<close> and \<open>_chunks\<close>.\<close>

record 'ix retriever_state =
  r_index :: "'ix option"
  r_chunks :: "string list option"

definition vector_store_missing_msg :: string where
  "vector_store_missing_msg =
     ''Vector store not found. Run the embed step to (re)build the vector store.''"

definition ensure_loaded ::
  "'ix vector_store \<Rightarrow> 'ix retriever_state \<Rightarrow> (exn + unit) \<times> 'ix retriever_state" where
  "ensure_loaded vs st =
     (if r_index st \<noteq> None \<and> r_chunks st \<noteq> None then (Inr (), st)
      else
        (case (faiss_index_bin vs, chunks_pkl vs) of
           (Some ix, Some cs) \<Rightarrow> (Inr (), st\<lparr>r_index := Some ix, r_chunks := Some cs\<rparr>)
         | _ \<Rightarrow> (Inl (FileNotFoundError vector_store_missing_msg), st)))"

definition reload_index ::
  "'ix vector_store \<Rightarrow> 'ix retriever_state \<Rightarrow> (exn + unit) \<times> 'ix retriever_state" where
  "reload_index vs st = ensure_loaded vs (st\<lparr>r_index := None, r_chunks := None\<rparr>)"

text \<open>\<open>k = max(1, min(k, len(_chunks)))\<close>\<close>

definition clamp_k :: "int \<Rightarrow> string list \<Rightarrow> int" where
  "clamp_k k cs = max 1 (min k (int (length cs)))"

text \<open>\<open>[ _chunks[i] for i in idx[0] if 0 <= i < len(_chunks) ]\<close>, the read \<open>_chunks[i]\<close>
  being Python's.\<close>

fun select_chunks :: "string list \<Rightarrow> int list \<Rightarrow> exn + string list" where
  "select_chunks cs [] = Inr []"
| "select_chunks cs (i # idx) =
     (if 0 \<le> i \<and> i < int (length cs) then
        (case py_index cs i of
           Inl e \<Rightarrow> Inl e
         | Inr c \<Rightarrow> (case select_chunks cs idx of Inl e \<Rightarrow> Inl e | Inr sel \<Rightarrow> Inr (c # sel)))
      else select_chunks cs idx)"

definition chunk_separator :: string where
  "chunk_separator = [NL, NL] @ ''---'' @ [NL, NL]"

definition retrieve_relevant_chunks ::
  "('ix, 'v) retriever_env \<Rightarrow> 'ix vector_store \<Rightarrow> 'ix retriever_state \<Rightarrow> string \<Rightarrow> int
     \<Rightarrow> (exn + string) \<times> 'ix retriever_state" where
  "retrieve_relevant_chunks env vs st query k =
     (case ensure_loaded vs st of
        (Inl e, st') \<Rightarrow> (Inl e, st')
      | (Inr _, st') \<Rightarrow>
          (case (r_index st', r_chunks st') of
             (Some ix, Some cs) \<Rightarrow>
               (if cs = [] then (Inr [], st')
                else
                  (case embed_query env query of
                     Inl e \<Rightarrow> (Inl e, st')
                   | Inr qv \<Rightarrow>
                       (case select_chunks cs (index_search env ix qv (clamp_k k cs)) of
                          Inl e \<Rightarrow> (Inl e, st')
                        | Inr selected \<Rightarrow> (Inr (str_join chunk_separator selected), st'))))
           | _ \<Rightarrow> (Inl AssertionError, st')))"

section \<open>backend/llm\_answer.py and backend/main.py\<close>





section \<open>backend/embed.py\<close>

text \<open>
  An entry of \<open>PROCESSED_DIR\<close> is a directory or a regular file with its text. The
  directory maps names to entries; \<open>os.listdir\<close> returns its names in an order of the
  operating system's choosing, which the program takes as it comes, so the listing is an
  argument of its own.
\<close>

datatype dir_entry = Directory | RegularFile string

type_synonym directory = "string \<rightharpoonup> dir_entry"

text \<open>
  The library calls of the index build: \<open>split_text\<close> is the
  \<open>RecursiveCharacterTextSplitter(chunk_size=1000, chunk_overlap=200)\<close>, \<open>embed_texts\<close> the
  provider chain of \<open>embedding_utils.py\<close> on one batch, \<open>build_index\<close> the float32 part
  (\<open>np.array\<close>, \<open>_normalize\<close>, \<open>faiss.IndexFlatIP\<close> and \<open>index.add\<close>).
\<close>

record ('ix, 'v) embed_env =
  split_text :: "string \<Rightarrow> string list"
  embed_texts :: "string list \<Rightarrow> exn + 'v list"
  build_index :: "'v list \<Rightarrow> 'ix"

text \<open>The loop over \<open>os.listdir(PROCESSED_DIR)\<close>: entries that are not regular files are
  passed over, the chunks of each file are appended.\<close>

fun collect_chunks ::
  "(string \<Rightarrow> string list) \<Rightarrow> directory \<Rightarrow> string list \<Rightarrow> string list \<Rightarrow> string list" where
  "collect_chunks splitter dir [] chunks = chunks"
| "collect_chunks splitter dir (fname # rest) chunks =
     (case dir fname of
        Some (RegularFile text) \<Rightarrow> collect_chunks splitter dir rest (chunks @ splitter text)
      | _ \<Rightarrow> collect_chunks splitter dir rest chunks)"

definition B :: nat where
  "B = 64"

text \<open>\<open>for i in range(0, len(chunks), B): vecs.extend(embed_texts(chunks[i:i+B]))\<close>\<close>

function embed_batches ::
  "(string list \<Rightarrow> exn + 'v list) \<Rightarrow> string list \<Rightarrow> nat \<Rightarrow> 'v list \<Rightarrow> exn + 'v list" where
  "embed_batches emb chunks i vecs =
     (if i < length chunks then
        (case emb (take B (drop i chunks)) of
           Inl e \<Rightarrow> Inl e
         | Inr batch_embeddings \<Rightarrow> embed_batches emb chunks (i + B) (vecs @ batch_embeddings))
      else Inr vecs)"
  by pat_completeness auto
termination
  by (relation "measure (\<lambda>(emb, chunks, i, vecs). length chunks - i)") (auto simp: B_def)

declare embed_batches.simps [simp del]

definition embed_and_store ::
  "('ix, 'v) embed_env \<Rightarrow> directory \<Rightarrow> string list \<Rightarrow> 'ix vector_store
     \<Rightarrow> (exn + unit) \<times> 'ix vector_store" where
  "embed_and_store env dir listing vs =
     (let chunks = collect_chunks (split_text env) dir listing []
      in if chunks = [] then (Inr (), vs)
         else
           (case embed_batches (embed_texts env) chunks 0 [] of
              Inl e \<Rightarrow> (Inl e, vs)
            | Inr vecs \<Rightarrow>
                (Inr (), vs\<lparr>faiss_index_bin := Some (build_index env vecs),
                            chunks_pkl := Some chunks\<rparr>)))"


section \<open>A small instance\<close>

text \<open>
  A flat index over \<open>n\<close> vectors that answers every query with the labels \<open>0, 1, \<dots>\<close> in
  order and pads with \<open>-1\<close> when asked for more than it holds, as the library does; the
  embedding of a query is the query, and the chat model echoes the user message.
\<close>

definition demo_retriever_env :: "(nat, string) retriever_env" where
  "demo_retriever_env =
     \<lparr>embed_query = (\<lambda>q. Inr q),
      index_search = (\<lambda>n qv k. map (\<lambda>j. if j < n then int j else - 1) [0..<nat k]),
      chat_complete = (\<lambda>sys usr. Inr usr)\<rparr>"



definition demo_no_store :: "nat vector_store" where
  "demo_no_store = \<lparr>faiss_index_bin = None, chunks_pkl = None\<rparr>"

text \<open>An index that holds one vector only, beside two chunks: asked for two labels, it
  answers \<open>[0, -1]\<close>.\<close>

definition demo_short :: "nat retriever_state" where
  "demo_short = \<lparr>r_index = Some 1, r_chunks = Some [''alpha'', ''beta'']\<rparr>"

text \<open>Two processed texts and a subdirectory; a splitter that cuts a text in pieces of at
  most four characters; an embedding that maps a chunk to its length.\<close>

definition demo_dir :: directory where
  "demo_dir = [''a.txt'' \<mapsto> RegularFile ''first'', ''b.txt'' \<mapsto> RegularFile ''second'',
               ''old'' \<mapsto> Directory]"

fun pieces :: "nat \<Rightarrow> string \<Rightarrow> string list" where
  "pieces n [] = []"
| "pieces n (c # cs) =
     (case pieces n cs of
        [] \<Rightarrow> [[c]]
      | p # ps \<Rightarrow> if length p < n then (c # p) # ps else [c] # p # ps)"

definition demo_embed_env :: "(nat list, nat) embed_env" where
  "demo_embed_env =
     \<lparr>split_text = pieces 4, embed_texts = (\<lambda>batch. Inr (map length batch)), build_index = id\<rparr>"

definition demo_store :: "(nat list) vector_store" where
  "demo_store = \<lparr>faiss_index_bin = Some [7], chunks_pkl = Some [''earlier'']\<rparr>"

text \<open>A service that accepts the token \<open>fresh\<close> only, and an \<open>auth\<close> module that hands
  out \<open>stale\<close> until its cache has been cleared. The world counts the cache clearings.\<close>

definition demo_net_env :: "nat net_env" where
  "demo_net_env =
     \<lparr>http_send = (\<lambda>w rq. (if rq_headers rq ''Authorization'' = Some ''Bearer fresh''
                             then Inr \<lparr>status_code = 200, content = ''data''\<rparr>
                             else Inr \<lparr>status_code = 401, content = []\<rparr>, w)),
      get_access_token = (\<lambda>w. (Inr (if w = 0 then ''stale'' else ''fresh''), w)),
      clear_token_cache = Suc\<rparr>"

definition demo_client :: "nat client_state" where
  "demo_client = \<lparr>cached_headers = Some [''Authorization'' \<mapsto> ''Bearer stale''], world = 0, sent = []\<rparr>"




section \<open>Paths\<close>

text \<open>\<open>os.path.join\<close> of two components, \<open>os.path.dirname\<close> and the root that
  \<open>os.path.splitext\<close> returns, as \<open>posixpath\<close> defines them.\<close>

definition path_join :: "string \<Rightarrow> string \<Rightarrow> string" where
  "path_join a b =
     (if b \<noteq> [] \<and> hd b = CHR ''/'' then b
      else if a = [] \<or> last a = CHR ''/'' then a @ b
      else a @ ''/'' @ b)"


definition splitext_root :: "string \<Rightarrow> string" where
  "splitext_root p =
     (let ext = takeWhile (\<lambda>c. c \<noteq> CHR ''.'') (rev p);
          rest = dropWhile (\<lambda>c. c \<noteq> CHR ''.'') (rev p)
      in if rest = [] \<or> CHR ''/'' \<in> set ext then p
         else if \<exists>c \<in> set (takeWhile (\<lambda>c. c \<noteq> CHR ''/'') (tl rest)). c \<noteq> CHR ''.''
              then rev (tl rest)
              else p)"


definition PROCESSED_DIR :: string where
  "PROCESSED_DIR = ''data/processed''"

section \<open>backend/ingest\_onedrive.py\<close>



text \<open>The state of the ingestion: the client, and the files under \<open>DOCS_DIR\<close> by path.
  \<open>attempts\<close> counts the calls of \<open>download_file\<close>; the program does not read it. Local
  file operations succeed.\<close>

record 'w ingest_state =
  client :: "'w client_state"
  docs :: "string \<rightharpoonup> bytes"
  attempts :: nat










section \<open>backend/extract\_answers\_smart.py\<close>

text \<open>\<open>base = os.path.splitext(rel)[0].replace("\\", "__").replace("/", "__")\<close> and the path
  of the Processed Text that belongs to it.\<close>

definition base_of :: "string \<Rightarrow> string" where
  "base_of rel = str_replace (CHR ''/'') ''__'' (str_replace (CHR 0x5C) ''__'' (splitext_root rel))"

definition output_path_of :: "string \<Rightarrow> string" where
  "output_path_of rel = path_join PROCESSED_DIR (base_of rel @ ''.txt'')"

text \<open>The truth value of \<open>text and text.strip()\<close>.\<close>

definition has_text :: "string \<Rightarrow> bool" where
  "has_text text = (str_strip text \<noteq> [])"

text \<open>
  The libraries behind the extraction, each a function of the path it is given: the two
  flags set at import time; \<open>test_pdf_extraction\<close> and \<open>extract_pdf_safe\<close> for
  \<open>_test_pdf_extraction\<close> and \<open>_extract_pdf_safe\<close>, and \<open>extract_xlsx\<close> for
  \<open>_extract_xlsx\<close>, which catch every exception themselves; the partitioners joined by
  \<open>_join\<close>, which may raise; \<open>extract_text_generic\<close>, which may raise; and
  \<open>os.path.exists\<close> under \<open>DOCS_DIR\<close>. The run reads \<open>DOCS_DIR\<close> and does not write it.
\<close>

record extract_env =
  UNSTRUCTURED_AVAILABLE :: bool
  OPENPYXL_AVAILABLE :: bool
  test_pdf_extraction :: "string \<Rightarrow> bool"
  extract_pdf_safe :: "string \<Rightarrow> string"
  partition_docx :: "string \<Rightarrow> exn + string"
  partition_pptx :: "string \<Rightarrow> exn + string"
  partition_ppt :: "string \<Rightarrow> exn + string"
  extract_text_generic :: "string \<Rightarrow> exn + string"
  extract_xlsx :: "string \<Rightarrow> string"
  docs_exists :: "string \<Rightarrow> bool"

text \<open>What the dispatch on the file name comes to: an unknown type, an exception that
  reaches the handler around the file, or \<open>should_process\<close> and \<open>text\<close>.\<close>

datatype extraction = UnknownType | Raised exn | Extracted bool string

definition extract_text :: "extract_env \<Rightarrow> string \<Rightarrow> string \<Rightarrow> extraction" where
  "extract_text env fp fn =
     (let l = str_lower fn in
      if endswith l ''.pdf'' then
        (if test_pdf_extraction env fp then Extracted True (extract_pdf_safe env fp)
         else Extracted False [])
      else if endswith l ''.docx'' \<and> UNSTRUCTURED_AVAILABLE env then
        (case partition_docx env fp of
           Inr text \<Rightarrow> Extracted True text
         | Inl e \<Rightarrow>
             if docs_exists env (fp @ ''.docx'') then
               (case partition_docx env (fp @ ''.docx'') of
                  Inr text \<Rightarrow> Extracted True text
                | Inl e2 \<Rightarrow> Extracted False [])
             else Extracted False [])
      else if endswith l ''.pptx'' \<and> UNSTRUCTURED_AVAILABLE env then
        (case partition_pptx env fp of
           Inr text \<Rightarrow> Extracted True text
         | Inl e \<Rightarrow> Extracted False [])
      else if endswith l ''.ppt'' \<and> UNSTRUCTURED_AVAILABLE env then
        (case partition_ppt env fp of
           Inr text \<Rightarrow> Extracted True text
         | Inl e \<Rightarrow> Extracted False [])
      else if endswith l ''.txt'' \<or> endswith l ''.csv'' \<or> endswith l ''.html'' then
        (case extract_text_generic env fp of
           Inr text \<Rightarrow> Extracted True text
         | Inl e \<Rightarrow> Raised e)
      else if (endswith l ''.xlsx'' \<or> endswith l ''.xls'') \<and> OPENPYXL_AVAILABLE env then
        (if has_text (extract_xlsx env fp) then Extracted True (extract_xlsx env fp)
         else Extracted False (extract_xlsx env fp))
      else UnknownType)"

text \<open>The Processed Texts by path, and the three counters of the run.\<close>

record extract_state =
  processed :: "string \<rightharpoonup> string"
  processed_count :: nat
  skipped_count :: nat
  failed_count :: nat

definition write_txt :: "string \<Rightarrow> string \<Rightarrow> (string \<rightharpoonup> string) \<Rightarrow> (string \<rightharpoonup> string)" where
  "write_txt base text fs = fs(path_join PROCESSED_DIR (base @ ''.txt'') \<mapsto> text)"

text \<open>The body of the loop over \<open>all_files\<close>, a list of \<open>(fp, rel, fn)\<close>.\<close>

definition extract_file :: "extract_env \<Rightarrow> extract_state \<Rightarrow> string \<times> string \<times> string \<Rightarrow> extract_state" where
  "extract_file env st f =
     (case f of (fp, rel, fn) \<Rightarrow>
        if processed st (output_path_of rel) \<noteq> None
        then st\<lparr>skipped_count := skipped_count st + 1\<rparr>
        else
          (case extract_text env fp fn of
             UnknownType \<Rightarrow> st\<lparr>skipped_count := skipped_count st + 1\<rparr>
           | Raised e \<Rightarrow> st\<lparr>failed_count := failed_count st + 1\<rparr>
           | Extracted should_process text \<Rightarrow>
               if should_process \<and> has_text text
               then st\<lparr>processed := write_txt (base_of rel) text (processed st),
                       processed_count := processed_count st + 1\<rparr>
               else st\<lparr>failed_count := failed_count st + 1\<rparr>))"

fun extract_loop :: "extract_env \<Rightarrow> (string \<times> string \<times> string) list \<Rightarrow> extract_state \<Rightarrow> extract_state" where
  "extract_loop env [] st = st"
| "extract_loop env (f # all_files) st = extract_loop env all_files (extract_file env st f)"

text \<open>A run of \<open>extract_smart\<close> over the files that \<open>os.walk(DOCS_DIR)\<close> lists, from the
  Processed Texts that are there: the counters start at zero.\<close>

definition extract_smart ::
  "extract_env \<Rightarrow> (string \<times> string \<times> string) list \<Rightarrow> (string \<rightharpoonup> string) \<Rightarrow> extract_state" where
  "extract_smart env all_files fs =
     extract_loop env all_files
       \<lparr>processed = fs, processed_count = 0, skipped_count = 0, failed_count = 0\<rparr>"

text \<open>A small \<open>DOCS_DIR\<close>: a text file, a PDF without extractable text, an archive of
  unknown type, and a second text file whose key is that of the first.\<close>

definition demo_extract_env :: extract_env where
  "demo_extract_env =
     \<lparr>UNSTRUCTURED_AVAILABLE = True, OPENPYXL_AVAILABLE = True,
      test_pdf_extraction = (\<lambda>fp. False), extract_pdf_safe = (\<lambda>fp. []),
      partition_docx = (\<lambda>fp. Inl (OtherException ''bad file'')),
      partition_pptx = (\<lambda>fp. Inl (OtherException ''bad file'')),
      partition_ppt = (\<lambda>fp. Inl (OtherException ''bad file'')),
      extract_text_generic = (\<lambda>fp. Inr (''text of '' @ fp)),
      extract_xlsx = (\<lambda>fp. []),
      docs_exists = (\<lambda>fp. False)\<rparr>"

definition demo_all_files :: "(string \<times> string \<times> string) list" where
  "demo_all_files =
     [(''data/docs/notes.txt'', ''notes.txt'', ''notes.txt''),
      (''data/docs/scan.pdf'', ''scan.pdf'', ''scan.pdf''),
      (''data/docs/a.zip'', ''a.zip'', ''a.zip''),
      (''data/docs/notes.csv'', ''notes.csv'', ''notes.csv'')]"

text \<open>Whether the extraction of a file yields a text that the run would write.\<close>

definition would_write :: "extract_env \<Rightarrow> string \<times> string \<times> string \<Rightarrow> bool" where
  "would_write env f =
     (case f of (fp, rel, fn) \<Rightarrow>
        (case extract_text env fp fn of
           Extracted should_process text \<Rightarrow> should_process \<and> has_text text
         | _ \<Rightarrow> False))"





section \<open>Properties of the retriever\<close>

lemma select_chunks_eq:
  "select_chunks cs idx =
     Inr (map (\<lambda>i. cs ! nat i) (filter (\<lambda>i. 0 \<le> i \<and> i < int (length cs)) idx))"
  by (induction idx) (simp_all add: py_index_def)

lemma clamp_k_bounds: "cs \<noteq> [] \<Longrightarrow> 1 \<le> clamp_k k cs \<and> clamp_k k cs \<le> int (length cs)"
  by (cases cs) (auto simp: clamp_k_def)

lemma ensure_loaded_loaded:
  "r_index st = Some ix \<Longrightarrow> r_chunks st = Some cs \<Longrightarrow> ensure_loaded vs st = (Inr (), st)"
  by (simp add: ensure_loaded_def)

lemma retrieve_loaded:
  assumes "r_index st = Some ix" and "r_chunks st = Some cs"
  shows "retrieve_relevant_chunks env vs st q k =
     (if cs = [] then (Inr [], st)
      else case embed_query env q of
             Inl e \<Rightarrow> (Inl e, st)
           | Inr qv \<Rightarrow>
               (Inr (str_join chunk_separator
                  (map (\<lambda>i. cs ! nat i)
                     (filter (\<lambda>i. 0 \<le> i \<and> i < int (length cs))
                        (index_search env ix qv (clamp_k k cs))))), st))"
  using assms
  by (simp add: retrieve_relevant_chunks_def ensure_loaded_loaded[OF assms] select_chunks_eq
           split: sum.splits)



text \<open>
  C9. A chunk is read only at a label \<open>i\<close> of the search result with \<open>0 \<le> i < len(chunks)\<close>:
  the selection never raises, it is the chunks at the labels in range, in the order of the
  result, and a label out of range (such as the placeholder \<open>-1\<close>, which Python would
  read as the last chunk) is dropped. The context is therefore the join of chunks of the
  list, at most as many as the \<open>k\<close> handed to the search, which is at most the \<open>k\<close>
  requested when that is 1 or more.
\<close>

theorem select_chunks_discards_out_of_range:
  "select_chunks cs idx =
      Inr (map (\<lambda>i. cs ! nat i) (filter (\<lambda>i. 0 \<le> i \<and> i < int (length cs)) idx))
   \<and> (\<forall>sel. select_chunks cs idx = Inr sel \<longrightarrow> set sel \<subseteq> set cs \<and> length sel \<le> length idx)
   \<and> (\<forall>i. i < 0 \<or> int (length cs) \<le> i \<longrightarrow> select_chunks cs (i # idx) = select_chunks cs idx)
   \<and> (\<forall>st ix qv. r_index st = Some ix \<and> r_chunks st = Some cs \<and> cs \<noteq> []
          \<and> embed_query env q = Inr qv
          \<and> length (index_search env ix qv (clamp_k k cs)) \<le> nat (clamp_k k cs) \<longrightarrow>
        (\<exists>sel. retrieve_relevant_chunks env vs st q k = (Inr (str_join chunk_separator sel), st)
           \<and> set sel \<subseteq> set cs \<and> int (length sel) \<le> clamp_k k cs
           \<and> (1 \<le> k \<longrightarrow> int (length sel) \<le> k)))"
proof -
  have sub: "set (map (\<lambda>i. cs ! nat i) (filter (\<lambda>i. 0 \<le> i \<and> i < int (length cs)) xs)) \<subseteq> set cs"
    for xs by auto
  have a: "\<forall>sel. select_chunks cs idx = Inr sel \<longrightarrow> set sel \<subseteq> set cs \<and> length sel \<le> length idx"
    using sub by (auto simp: select_chunks_eq)
  have b: "\<forall>i. i < 0 \<or> int (length cs) \<le> i \<longrightarrow> select_chunks cs (i # idx) = select_chunks cs idx"
    by auto
  have c: "\<exists>sel. retrieve_relevant_chunks env vs st q k = (Inr (str_join chunk_separator sel), st)
           \<and> set sel \<subseteq> set cs \<and> int (length sel) \<le> clamp_k k cs
           \<and> (1 \<le> k \<longrightarrow> int (length sel) \<le> k)"
    if h: "r_index st = Some ix" "r_chunks st = Some cs" "cs \<noteq> []" "embed_query env q = Inr qv"
       "length (index_search env ix qv (clamp_k k cs)) \<le> nat (clamp_k k cs)" for st ix qv
  proof -
    let ?sel = "map (\<lambda>i. cs ! nat i)
                  (filter (\<lambda>i. 0 \<le> i \<and> i < int (length cs)) (index_search env ix qv (clamp_k k cs)))"
    have r: "retrieve_relevant_chunks env vs st q k = (Inr (str_join chunk_separator ?sel), st)"
      using h by (simp add: retrieve_loaded[OF h(1) h(2)])
    have "length ?sel \<le> length (index_search env ix qv (clamp_k k cs))" by simp
    then have l: "int (length ?sel) \<le> clamp_k k cs"
      using h(5) clamp_k_bounds[OF h(3), of k] by linarith
    have "1 \<le> k \<longrightarrow> clamp_k k cs \<le> k" by (simp add: clamp_k_def)
    with l have l2: "1 \<le> k \<longrightarrow> int (length ?sel) \<le> k" by linarith
    show ?thesis using r l l2 sub by blast
  qed
  show ?thesis using select_chunks_eq a b c by blast
qed

theorem select_chunks_discards_out_of_range_witness:
  "select_chunks [''alpha'', ''beta''] [0, - 1] = Inr [''alpha'']
   \<and> r_index demo_short = Some 1 \<and> r_chunks demo_short = Some [''alpha'', ''beta'']
   \<and> embed_query demo_retriever_env ''q'' = Inr ''q''
   \<and> index_search demo_retriever_env 1 ''q'' (clamp_k 4 [''alpha'', ''beta'']) = [0, - 1]
   \<and> (\<exists>sel. retrieve_relevant_chunks demo_retriever_env demo_no_store demo_short ''q'' 4
              = (Inr (str_join chunk_separator sel), demo_short)
          \<and> set sel \<subseteq> set [''alpha'', ''beta'']
          \<and> int (length sel) \<le> clamp_k 4 [''alpha'', ''beta'']
          \<and> int (length sel) \<le> 4)"
proof -
  note inst = select_chunks_discards_out_of_range[where cs = "[''alpha'', ''beta'']"
      and idx = "[0, - 1]" and env = demo_retriever_env and q = "''q''" and k = 4
      and vs = demo_no_store]
  have e: "select_chunks [''alpha'', ''beta''] [0, - 1] = Inr [''alpha'']"
    using inst by simp
  have k: "clamp_k 4 [''alpha'', ''beta''] = 2" by (simp add: clamp_k_def)
  have s: "index_search demo_retriever_env 1 ''q'' 2 = [0, - 1]"
    by (simp add: demo_retriever_env_def upt_rec)
  have h: "r_index demo_short = Some 1 \<and> r_chunks demo_short = Some [''alpha'', ''beta'']
          \<and> [''alpha'', ''beta''] \<noteq> [] \<and> embed_query demo_retriever_env ''q'' = Inr ''q''
          \<and> length (index_search demo_retriever_env 1 ''q'' (clamp_k 4 [''alpha'', ''beta'']))
               \<le> nat (clamp_k 4 [''alpha'', ''beta''])"
    by (simp add: demo_short_def demo_retriever_env_def k)
  from inst have "\<forall>st ix qv. r_index st = Some ix \<and> r_chunks st = Some [''alpha'', ''beta'']
          \<and> [''alpha'', ''beta''] \<noteq> [] \<and> embed_query demo_retriever_env ''q'' = Inr qv
          \<and> length (index_search demo_retriever_env ix qv (clamp_k 4 [''alpha'', ''beta'']))
               \<le> nat (clamp_k 4 [''alpha'', ''beta'']) \<longrightarrow>
        (\<exists>sel. retrieve_relevant_chunks demo_retriever_env demo_no_store st ''q'' 4
             = (Inr (str_join chunk_separator sel), st)
           \<and> set sel \<subseteq> set [''alpha'', ''beta'']
           \<and> int (length sel) \<le> clamp_k 4 [''alpha'', ''beta'']
           \<and> (1 \<le> (4::int) \<longrightarrow> int (length sel) \<le> 4))"
    by blast
  then have "\<exists>sel. retrieve_relevant_chunks demo_retriever_env demo_no_store demo_short ''q'' 4
             = (Inr (str_join chunk_separator sel), demo_short)
           \<and> set sel \<subseteq> set [''alpha'', ''beta'']
           \<and> int (length sel) \<le> clamp_k 4 [''alpha'', ''beta'']
           \<and> (1 \<le> (4::int) \<longrightarrow> int (length sel) \<le> 4)"
    using h by blast
  then show ?thesis using e h k s by simp
qed




section \<open>Properties of the index build\<close>





lemma embed_batches_single:
  assumes "cs \<noteq> []" and "length cs \<le> B" and "emb cs = Inr vecs"
  shows "embed_batches emb cs 0 [] = Inr vecs"
proof -
  have "embed_batches emb cs B vecs = Inr vecs"
    using assms(2) by (subst embed_batches.simps) simp
  then show ?thesis
    using assms by (subst embed_batches.simps) simp
qed




text \<open>
  C10. When the listing yields no chunk, \<open>embed_and_store\<close> returns with the vector store
  as it was. The store changes only when there is at least one chunk and every batch was
  embedded, and then both artifacts are replaced together, by the index over the new
  vectors and by the new chunk list.
\<close>

theorem embed_and_store_no_chunks:
  "(collect_chunks (split_text env) dir listing [] = [] \<longrightarrow>
       embed_and_store env dir listing vs = (Inr (), vs))
   \<and> (snd (embed_and_store env dir listing vs) \<noteq> vs \<longrightarrow>
        collect_chunks (split_text env) dir listing [] \<noteq> []
        \<and> (\<exists>vecs. embed_batches (embed_texts env) (collect_chunks (split_text env) dir listing []) 0 []
                     = Inr vecs
              \<and> embed_and_store env dir listing vs =
                  (Inr (), vs\<lparr>faiss_index_bin := Some (build_index env vecs),
                              chunks_pkl := Some (collect_chunks (split_text env) dir listing [])\<rparr>)))"
  by (auto simp: embed_and_store_def Let_def split: sum.splits)

theorem embed_and_store_no_chunks_witness:
  "collect_chunks (split_text demo_embed_env) demo_dir [''old''] [] = []
   \<and> embed_and_store demo_embed_env demo_dir [''old''] demo_store = (Inr (), demo_store)
   \<and> snd (embed_and_store demo_embed_env demo_dir [''a.txt''] demo_store) \<noteq> demo_store
   \<and> collect_chunks (split_text demo_embed_env) demo_dir [''a.txt''] [] \<noteq> []"
proof -
  have c0: "collect_chunks (split_text demo_embed_env) demo_dir [''old''] [] = []"
    by (simp add: demo_dir_def)
  have c1: "collect_chunks (split_text demo_embed_env) demo_dir [''a.txt''] [] = [''f'', ''irst'']"
    by (simp add: demo_dir_def demo_embed_env_def)
  have e: "embed_batches (embed_texts demo_embed_env) [''f'', ''irst''] 0 [] = Inr [1, 4]"
    by (intro embed_batches_single) (auto simp: demo_embed_env_def B_def)
  have ch: "snd (embed_and_store demo_embed_env demo_dir [''a.txt''] demo_store) \<noteq> demo_store"
    unfolding embed_and_store_def Let_def c1 e by (simp add: demo_store_def)
  show ?thesis
    using embed_and_store_no_chunks[of demo_embed_env demo_dir "[''old'']" demo_store]
          embed_and_store_no_chunks[of demo_embed_env demo_dir "[''a.txt'']" demo_store] c0 ch
    by blast
qed

section \<open>Properties of the OneDrive client\<close>

lemma get_headers_sent: "sent (snd (get_headers env st)) = sent st"
  by (auto simp: get_headers_def Let_def split: option.splits prod.splits sum.splits)

lemma dispatch_request_sent:
  "sent (snd (dispatch_request env st m url hs d)) = sent st @ [build_request m url hs d]"
  by (auto simp: dispatch_request_def split: prod.splits)

lemma get_headers_fresh:
  assumes "cached_headers st = None"
  shows "get_headers env st =
     (case get_access_token env (world st) of
        (Inl e, w) \<Rightarrow> (Inl e, st\<lparr>world := w\<rparr>)
      | (Inr token, w) \<Rightarrow>
          (Inr [''Authorization'' \<mapsto> ''Bearer '' @ token],
           st\<lparr>cached_headers := Some [''Authorization'' \<mapsto> ''Bearer '' @ token], world := w\<rparr>))"
  using assms by (simp add: get_headers_def Let_def split: prod.splits sum.splits)

text \<open>
  C8. For a method that is GET, PUT or POST in upper case, with headers at hand and a first
  response that came back: a status other than 401 is returned as it is, after that one
  request. On 401 the cached headers are dropped, the token cache is cleared and a token is
  asked for again; with the new token the same request is sent a second time, and whatever
  that second send gives (a response of any status, or an exception) is what the call
  returns; if no token can be had, that exception is returned and nothing more is sent.
  In every case at most two requests are sent.
\<close>

theorem refresh_on_401_once:
  assumes m: "str_upper method = ''GET'' \<or> str_upper method = ''PUT'' \<or> str_upper method = ''POST''"
      and h: "get_headers env st = (Inr h, st1)"
      and r1: "http_send env (world st1) (build_request (str_upper method) url (update_headers h extra_headers) data)
                 = (Inr resp1, w1)"
  shows "(status_code resp1 \<noteq> 401 \<longrightarrow>
            make_authenticated_request env st url method data extra_headers
              = (Inr resp1, st1\<lparr>world := w1,
                   sent := sent st @ [build_request (str_upper method) url (update_headers h extra_headers) data]\<rparr>))
       \<and> (\<forall>token w2 r2 w3.
            status_code resp1 = 401
            \<and> get_access_token env (clear_token_cache env w1) = (Inr token, w2)
            \<and> http_send env w2 (build_request (str_upper method) url
                   (update_headers [''Authorization'' \<mapsto> ''Bearer '' @ token] extra_headers) data) = (r2, w3) \<longrightarrow>
            make_authenticated_request env st url method data extra_headers
              = (r2, st1\<lparr>cached_headers := Some [''Authorization'' \<mapsto> ''Bearer '' @ token],
                       world := w3,
                       sent := sent st @ [build_request (str_upper method) url (update_headers h extra_headers) data,
                                          build_request (str_upper method) url
                                            (update_headers [''Authorization'' \<mapsto> ''Bearer '' @ token] extra_headers) data]\<rparr>))
       \<and> (\<forall>e w2.
            status_code resp1 = 401
            \<and> get_access_token env (clear_token_cache env w1) = (Inl e, w2) \<longrightarrow>
            make_authenticated_request env st url method data extra_headers
              = (Inl e, st1\<lparr>cached_headers := None, world := w2,
                       sent := sent st @ [build_request (str_upper method) url (update_headers h extra_headers) data]\<rparr>))
       \<and> length (sent (snd (make_authenticated_request env st url method data extra_headers)))
            \<le> length (sent st) + 2"
proof -
  let ?m = "str_upper method"
  let ?rq1 = "build_request ?m url (update_headers h extra_headers) data"
  have s1: "sent st1 = sent st"
    using get_headers_sent[of env st] h by simp
  have d1: "dispatch_request env st1 ?m url (update_headers h extra_headers) data
              = (Inr resp1, st1\<lparr>world := w1, sent := sent st @ [?rq1]\<rparr>)"
    using r1 s1 by (simp add: dispatch_request_def)
  have mm: "(?m \<noteq> ''GET'' \<and> ?m \<noteq> ''PUT'' \<and> ?m \<noteq> ''POST'') = False"
    using m by blast
  have unfold: "make_authenticated_request env st url method data extra_headers =
      (if status_code resp1 = 401 then
         (case get_headers env (st1\<lparr>world := w1, sent := sent st @ [?rq1]\<rparr>
                                  \<lparr>cached_headers := None, world := clear_token_cache env w1\<rparr>) of
            (Inl e, st4) \<Rightarrow> (Inl e, st4)
          | (Inr h', st4) \<Rightarrow> dispatch_request env st4 ?m url (update_headers h' extra_headers) data)
       else (Inr resp1, st1\<lparr>world := w1, sent := sent st @ [?rq1]\<rparr>))"
    unfolding make_authenticated_request_def Let_def
    by (simp only: h mm d1 prod.case sum.case if_False) simp
  have a: "status_code resp1 \<noteq> 401 \<longrightarrow>
            make_authenticated_request env st url method data extra_headers
              = (Inr resp1, st1\<lparr>world := w1, sent := sent st @ [?rq1]\<rparr>)"
    using unfold by simp
  have b: "make_authenticated_request env st url method data extra_headers
              = (r2, st1\<lparr>cached_headers := Some [''Authorization'' \<mapsto> ''Bearer '' @ token],
                       world := w3,
                       sent := sent st @ [?rq1, build_request ?m url
                                            (update_headers [''Authorization'' \<mapsto> ''Bearer '' @ token] extra_headers) data]\<rparr>)"
    if "status_code resp1 = 401"
       "get_access_token env (clear_token_cache env w1) = (Inr token, w2)"
       "http_send env w2 (build_request ?m url
                   (update_headers [''Authorization'' \<mapsto> ''Bearer '' @ token] extra_headers) data) = (r2, w3)"
    for token w2 r2 w3
    using that unfold by (simp add: get_headers_fresh dispatch_request_def)
  have c: "make_authenticated_request env st url method data extra_headers
              = (Inl e, st1\<lparr>cached_headers := None, world := w2, sent := sent st @ [?rq1]\<rparr>)"
    if "status_code resp1 = 401"
       "get_access_token env (clear_token_cache env w1) = (Inl e, w2)" for e w2
    using that unfold by (simp add: get_headers_fresh)
  have d: "length (sent (snd (make_authenticated_request env st url method data extra_headers)))
            \<le> length (sent st) + 2"
  proof (cases "status_code resp1 = 401")
    case False
    then show ?thesis using a by simp
  next
    case True
    obtain t w2 where g: "get_access_token env (clear_token_cache env w1) = (t, w2)"
      by (cases "get_access_token env (clear_token_cache env w1)")
    show ?thesis
    proof (cases t)
      case (Inl e)
      then show ?thesis using c[OF True] g by simp
    next
      case (Inr token)
      obtain r2 w3 where "http_send env w2 (build_request ?m url
                   (update_headers [''Authorization'' \<mapsto> ''Bearer '' @ token] extra_headers) data) = (r2, w3)"
        by (cases "http_send env w2 (build_request ?m url
                   (update_headers [''Authorization'' \<mapsto> ''Bearer '' @ token] extra_headers) data)")
      then show ?thesis using b[OF True] g Inr by simp
    qed
  qed
  show ?thesis using a b c d by blast
qed

theorem refresh_on_401_once_witness:
  "str_upper ''get'' = ''GET''
   \<and> get_headers demo_net_env demo_client = (Inr [''Authorization'' \<mapsto> ''Bearer stale''], demo_client)
   \<and> fst (make_authenticated_request demo_net_env demo_client ''u'' ''get'' None None)
         = Inr \<lparr>status_code = 200, content = ''data''\<rparr>
   \<and> cached_headers (snd (make_authenticated_request demo_net_env demo_client ''u'' ''get'' None None))
         = Some [''Authorization'' \<mapsto> ''Bearer fresh'']
   \<and> length (sent (snd (make_authenticated_request demo_net_env demo_client ''u'' ''get'' None None))) = 2"
proof -
  have m: "str_upper ''get'' = ''GET''"
    by code_simp
  have h: "get_headers demo_net_env demo_client
             = (Inr [''Authorization'' \<mapsto> ''Bearer stale''], demo_client)"
    by (simp add: get_headers_def demo_client_def)
  have r1: "http_send demo_net_env (world demo_client)
              (build_request (str_upper ''get'') ''u''
                 (update_headers [''Authorization'' \<mapsto> ''Bearer stale''] None) None)
            = (Inr \<lparr>status_code = 401, content = []\<rparr>, 0)"
    by (simp add: m demo_net_env_def demo_client_def build_request_def update_headers_def)
  have t: "get_access_token demo_net_env (clear_token_cache demo_net_env 0) = (Inr ''fresh'', Suc 0)"
    by (simp add: demo_net_env_def)
  have r2: "http_send demo_net_env (Suc 0)
              (build_request (str_upper ''get'') ''u''
                 (update_headers [''Authorization'' \<mapsto> ''Bearer '' @ ''fresh''] None) None)
            = (Inr \<lparr>status_code = 200, content = ''data''\<rparr>, Suc 0)"
    by (simp add: m demo_net_env_def build_request_def update_headers_def)
  have mm: "str_upper ''get'' = ''GET'' \<or> str_upper ''get'' = ''PUT'' \<or> str_upper ''get'' = ''POST''"
    using m by simp
  note inst = refresh_on_401_once[OF mm h r1]
  from inst have "\<forall>token w2 r2 w3.
            status_code \<lparr>status_code = 401, content = []\<rparr> = 401
            \<and> get_access_token demo_net_env (clear_token_cache demo_net_env 0) = (Inr token, w2)
            \<and> http_send demo_net_env w2 (build_request (str_upper ''get'') ''u''
                   (update_headers [''Authorization'' \<mapsto> ''Bearer '' @ token] None) None) = (r2, w3) \<longrightarrow>
            make_authenticated_request demo_net_env demo_client ''u'' ''get'' None None
              = (r2, demo_client\<lparr>cached_headers := Some [''Authorization'' \<mapsto> ''Bearer '' @ token],
                       world := w3,
                       sent := sent demo_client @ [build_request (str_upper ''get'') ''u''
                                            (update_headers [''Authorization'' \<mapsto> ''Bearer stale''] None) None,
                                          build_request (str_upper ''get'') ''u''
                                            (update_headers [''Authorization'' \<mapsto> ''Bearer '' @ token] None) None]\<rparr>)"
    by blast
  then have "make_authenticated_request demo_net_env demo_client ''u'' ''get'' None None
              = (Inr \<lparr>status_code = 200, content = ''data''\<rparr>,
                 demo_client\<lparr>cached_headers := Some [''Authorization'' \<mapsto> ''Bearer '' @ ''fresh''],
                       world := Suc 0,
                       sent := sent demo_client @ [build_request (str_upper ''get'') ''u''
                                            (update_headers [''Authorization'' \<mapsto> ''Bearer stale''] None) None,
                                          build_request (str_upper ''get'') ''u''
                                            (update_headers [''Authorization'' \<mapsto> ''Bearer '' @ ''fresh''] None) None]\<rparr>)"
    using t r2 by simp
  then show ?thesis
    using m h by (simp add: demo_client_def)
qed

section \<open>Properties of the recursive listing\<close>

lemma tag_item_simps [simp]:
  "is_folder (tag_item cp it) = is_folder it" "name (tag_item cp it) = name it"
  by (simp_all add: tag_item_def)






section \<open>Properties of the download with retry\<close>















section \<open>Properties of the extraction run\<close>

lemma write_txt_path: "write_txt (base_of rel) text fs = fs(output_path_of rel \<mapsto> text)"
  by (simp add: write_txt_def output_path_of_def)

lemma extract_file_skip:
  assumes "processed st (output_path_of rel) = Some t"
  shows "extract_file env st (fp, rel, fn) = st\<lparr>skipped_count := skipped_count st + 1\<rparr>"
  using assms by (simp add: extract_file_def)

lemma extract_file_processed:
  "processed (extract_file env st (fp, rel, fn)) =
     (if processed st (output_path_of rel) = None \<and> would_write env (fp, rel, fn)
      then (case extract_text env fp fn of
              Extracted sp text \<Rightarrow> (processed st)(output_path_of rel \<mapsto> text)
            | _ \<Rightarrow> processed st)
      else processed st)"
  by (auto simp: extract_file_def would_write_def write_txt_path split: extraction.splits)

lemma extract_file_count:
  "processed_count (extract_file env st (fp, rel, fn)) =
     (if processed st (output_path_of rel) = None \<and> would_write env (fp, rel, fn)
      then processed_count st + 1 else processed_count st)"
  by (auto simp: extract_file_def would_write_def split: extraction.splits)

lemma extract_file_keeps:
  assumes "processed st p = Some t"
  shows "processed (extract_file env st f) p = Some t"
proof -
  obtain fp rel fn where f: "f = (fp, rel, fn)" by (cases f) auto
  show ?thesis
    using assms unfolding f extract_file_processed
    by (auto split: extraction.splits)
qed

lemma extract_file_covers:
  "processed (extract_file env st (fp, rel, fn)) (output_path_of rel) \<noteq> None
     \<or> \<not> would_write env (fp, rel, fn)"
  unfolding extract_file_processed
  by (auto simp: would_write_def split: extraction.splits)

lemma extract_loop_keeps:
  "processed st p = Some t \<Longrightarrow> processed (extract_loop env fs st) p = Some t"
  by (induction fs arbitrary: st) (auto intro: extract_file_keeps)

lemma extract_loop_covers:
  "(fp, rel, fn) \<in> set fs \<Longrightarrow>
     processed (extract_loop env fs st) (output_path_of rel) \<noteq> None
       \<or> \<not> would_write env (fp, rel, fn)"
proof (induction fs arbitrary: st)
  case Nil
  then show ?case by simp
next
  case (Cons f fs)
  show ?case
  proof (cases "f = (fp, rel, fn)")
    case True
    have "processed (extract_file env st f) (output_path_of rel) \<noteq> None
            \<or> \<not> would_write env (fp, rel, fn)"
      unfolding True by (rule extract_file_covers)
    then show ?thesis
      using extract_loop_keeps[of "extract_file env st f" "output_path_of rel" _ env fs]
      by auto
  next
    case False
    then have "(fp, rel, fn) \<in> set fs" using Cons.prems by simp
    then show ?thesis using Cons.IH[of "extract_file env st f"] by simp
  qed
qed

lemma extract_loop_settled:
  assumes "\<forall>(fp, rel, fn) \<in> set fs.
             processed st (output_path_of rel) \<noteq> None \<or> \<not> would_write env (fp, rel, fn)"
  shows "processed (extract_loop env fs st) = processed st
       \<and> processed_count (extract_loop env fs st) = processed_count st"
  using assms
proof (induction fs arbitrary: st)
  case Nil
  then show ?case by simp
next
  case (Cons f fs)
  obtain fp rel fn where f: "f = (fp, rel, fn)" by (cases f) auto
  have h: "processed st (output_path_of rel) \<noteq> None \<or> \<not> would_write env (fp, rel, fn)"
    using Cons.prems f by auto
  have p: "processed (extract_file env st f) = processed st"
    unfolding f extract_file_processed using h by auto
  have c: "processed_count (extract_file env st f) = processed_count st"
    unfolding f extract_file_count using h by auto
  have "\<forall>(fp, rel, fn) \<in> set fs.
          processed (extract_file env st f) (output_path_of rel) \<noteq> None
            \<or> \<not> would_write env (fp, rel, fn)"
    using Cons.prems p by auto
  then show ?case
    using Cons.IH[of "extract_file env st f"] p c by simp
qed

lemma extract_smart_twice:
  "processed (extract_smart env all_files (processed (extract_smart env all_files fs)))
      = processed (extract_smart env all_files fs)
   \<and> processed_count (extract_smart env all_files (processed (extract_smart env all_files fs))) = 0"
proof -
  let ?st1 = "extract_smart env all_files fs"
  let ?st0 = "\<lparr>processed = processed ?st1, processed_count = 0, skipped_count = 0, failed_count = 0\<rparr>"
  have "\<forall>(fp, rel, fn) \<in> set all_files.
           processed ?st0 (output_path_of rel) \<noteq> None \<or> \<not> would_write env (fp, rel, fn)"
    using extract_loop_covers[of _ _ _ all_files env] by (auto simp: extract_smart_def)
  from extract_loop_settled[OF this] show ?thesis
    by (simp add: extract_smart_def)
qed

text \<open>
  C5. A file whose key already has a Processed Text is skipped: the skip counter goes up by
  one and nothing else changes, whatever the extraction libraries would have said, so
  nothing is extracted and the artifact is not overwritten. No run ever changes a Processed
  Text that is already there. A second run over the same files, from the Processed Texts
  the first run left, writes nothing: its count of processed files is zero and every
  Processed Text is as the first run left it.
\<close>

theorem extraction_is_idempotent:
  "(\<forall>t. processed st (output_path_of rel) = Some t \<longrightarrow>
       (\<forall>env'. extract_file env' st (fp, rel, fn) = st\<lparr>skipped_count := skipped_count st + 1\<rparr>))
   \<and> (\<forall>p t. fs p = Some t \<longrightarrow> processed (extract_smart env all_files fs) p = Some t)
   \<and> processed (extract_smart env all_files (processed (extract_smart env all_files fs)))
        = processed (extract_smart env all_files fs)
   \<and> processed_count (extract_smart env all_files (processed (extract_smart env all_files fs))) = 0"
proof -
  have a: "\<forall>t. processed st (output_path_of rel) = Some t \<longrightarrow>
       (\<forall>env'. extract_file env' st (fp, rel, fn) = st\<lparr>skipped_count := skipped_count st + 1\<rparr>)"
    using extract_file_skip by blast
  have b: "\<forall>p t. fs p = Some t \<longrightarrow> processed (extract_smart env all_files fs) p = Some t"
    by (simp add: extract_smart_def extract_loop_keeps)
  show ?thesis
    using a b extract_smart_twice[of env all_files fs] by blast
qed

theorem extraction_is_idempotent_witness:
  "processed (extract_smart demo_extract_env demo_all_files Map.empty) (output_path_of ''notes.csv'')
      = Some ''text of data/docs/notes.txt''
   \<and> extract_file demo_extract_env (extract_smart demo_extract_env demo_all_files Map.empty)
        (''data/docs/notes.csv'', ''notes.csv'', ''notes.csv'')
      = (extract_smart demo_extract_env demo_all_files Map.empty)
          \<lparr>skipped_count :=
             skipped_count (extract_smart demo_extract_env demo_all_files Map.empty) + 1\<rparr>
   \<and> processed_count (extract_smart demo_extract_env demo_all_files Map.empty) = 1
   \<and> processed_count (extract_smart demo_extract_env demo_all_files
         (processed (extract_smart demo_extract_env demo_all_files Map.empty))) = 0
   \<and> processed (extract_smart demo_extract_env demo_all_files
         (processed (extract_smart demo_extract_env demo_all_files Map.empty)))
       = processed (extract_smart demo_extract_env demo_all_files Map.empty)"
proof -
  note inst = extraction_is_idempotent[where st = "extract_smart demo_extract_env demo_all_files Map.empty"
      and rel = "''notes.csv''" and fp = "''data/docs/notes.csv''" and fn = "''notes.csv''"
      and env = demo_extract_env and all_files = demo_all_files and fs = Map.empty]
  have h: "processed (extract_smart demo_extract_env demo_all_files Map.empty)
             (output_path_of ''notes.csv'') = Some ''text of data/docs/notes.txt''"
    by code_simp
  have c: "processed_count (extract_smart demo_extract_env demo_all_files Map.empty) = 1"
    by code_simp
  note skip = inst[THEN conjunct1, rule_format, OF h, of demo_extract_env]
  show ?thesis
    using h c skip inst[THEN conjunct2, THEN conjunct2] by simp
qed

end
